theory Spec2Isabelle
  imports Main
begin

section \<open>JSON values and the decoder of encoding/json on the program's struct types\<close>

text \<open>
  A JSON value as the decoder of Go's encoding/json sees it once the text has been
  scanned. Strings and member names are the decoded Go strings (byte sequences);
  the members of an object are kept in document order, duplicates included, because
  the decoder stores them one after the other.
\<close>

datatype json =
    JNull
  | JBool bool
  | JNumber string
  | JString string
  | JArray "json list"
  | JObject "(string \<times> json) list"

text \<open>
  What \<open>json.NewDecoder(body).Decode\<close> finds in a body: \<open>NoValue\<close> when no well-formed
  JSON value can be read from the stream (read error, end of input, syntax error),
  \<open>Value v\<close> when the next value of the stream is \<open>v\<close>.
\<close>

datatype body = NoValue | Value json

datatype decode_error = SyntaxError | UnmarshalTypeError

text \<open>
  Member names are matched with the struct's field names exactly or, failing that,
  after folding: ASCII letters to upper case, and the two non-ASCII runes that fold
  to an ASCII letter, U+017F (bytes C5 BF) to S and U+212A (bytes E2 84 AA) to K.
  Every other non-ASCII rune folds to a non-ASCII rune, so its bytes are left as they
  are: such a name never matches the ASCII field names of this program.
\<close>

definition toUpper :: "char \<Rightarrow> char" where
  "toUpper c =
     (if (97::nat) \<le> of_char c \<and> of_char c \<le> (122::nat)
      then char_of (of_char c - (32::nat)) else c)"

fun foldName :: "string \<Rightarrow> string" where
  "foldName [] = []"
| "foldName (c # cs) =
     (if c = CHR 0xC5 \<and> take 1 cs = [CHR 0xBF] then CHR ''S'' # foldName (drop 1 cs)
      else if c = CHR 0xE2 \<and> take 2 cs = [CHR 0x84, CHR 0xAA] then CHR ''K'' # foldName (drop 2 cs)
      else toUpper c # foldName cs)"

definition matchField :: "string list \<Rightarrow> string \<Rightarrow> string option" where
  "matchField fields key =
     (if key \<in> set fields then Some key
      else find (\<lambda>f. foldName f = foldName key) fields)"

text \<open>The first error of a decoding run is the one reported.\<close>

definition saveError :: "decode_error \<Rightarrow> decode_error option \<Rightarrow> decode_error option" where
  "saveError e saved = (case saved of None \<Rightarrow> Some e | Some e' \<Rightarrow> Some e')"

text \<open>
  Storing a JSON value in a field of type \<open>string\<close>: a JSON string is stored, \<open>null\<close>
  leaves the field as it is, any other value is a type error and leaves the field as it is.
\<close>

fun storeString :: "json \<Rightarrow> string \<Rightarrow> decode_error option \<Rightarrow> string \<times> decode_error option" where
  "storeString (JString s) old saved = (s, saved)"
| "storeString JNull old saved = (old, saved)"
| "storeString v old saved = (old, saveError UnmarshalTypeError saved)"

subsection \<open>The server's \<open>awesomeAPIResponse\<close>\<close>

record usdbrl =
  Code :: string
  Codein :: string
  Bid :: string

record awesomeAPIResponse =
  USDBRL :: usdbrl

definition zero_usdbrl :: usdbrl where
  "zero_usdbrl = \<lparr>Code = [], Codein = [], Bid = []\<rparr>"

definition zero_awesomeAPIResponse :: awesomeAPIResponse where
  "zero_awesomeAPIResponse = \<lparr>USDBRL = zero_usdbrl\<rparr>"

definition store_usdbrl_member ::
  "string \<times> json \<Rightarrow> usdbrl \<times> decode_error option \<Rightarrow> usdbrl \<times> decode_error option" where
  "store_usdbrl_member m acc =
     (case acc of (u, saved) \<Rightarrow>
        (case matchField [''code'', ''codein'', ''bid''] (fst m) of
           None \<Rightarrow> (u, saved)
         | Some f \<Rightarrow>
             if f = ''code'' then
               (case storeString (snd m) (Code u) saved of (s, saved') \<Rightarrow> (u\<lparr>Code := s\<rparr>, saved'))
             else if f = ''codein'' then
               (case storeString (snd m) (Codein u) saved of (s, saved') \<Rightarrow> (u\<lparr>Codein := s\<rparr>, saved'))
             else
               (case storeString (snd m) (Bid u) saved of (s, saved') \<Rightarrow> (u\<lparr>Bid := s\<rparr>, saved'))))"

fun store_usdbrl :: "json \<Rightarrow> usdbrl \<Rightarrow> decode_error option \<Rightarrow> usdbrl \<times> decode_error option" where
  "store_usdbrl (JObject ms) u saved = foldl (\<lambda>acc m. store_usdbrl_member m acc) (u, saved) ms"
| "store_usdbrl JNull u saved = (u, saved)"
| "store_usdbrl v u saved = (u, saveError UnmarshalTypeError saved)"

definition store_awesome_member ::
  "string \<times> json \<Rightarrow> awesomeAPIResponse \<times> decode_error option
     \<Rightarrow> awesomeAPIResponse \<times> decode_error option" where
  "store_awesome_member m acc =
     (case acc of (a, saved) \<Rightarrow>
        (case matchField [''USDBRL''] (fst m) of
           None \<Rightarrow> (a, saved)
         | Some f \<Rightarrow>
             (case store_usdbrl (snd m) (USDBRL a) saved of (u, saved') \<Rightarrow> (a\<lparr>USDBRL := u\<rparr>, saved'))))"

fun store_awesome ::
  "json \<Rightarrow> awesomeAPIResponse \<Rightarrow> decode_error option \<Rightarrow> awesomeAPIResponse \<times> decode_error option" where
  "store_awesome (JObject ms) a saved = foldl (\<lambda>acc m. store_awesome_member m acc) (a, saved) ms"
| "store_awesome JNull a saved = (a, saved)"
| "store_awesome v a saved = (a, saveError UnmarshalTypeError saved)"

text \<open>
  \<open>json.NewDecoder(resp.Body).Decode(&apiResp)\<close>: the struct as it is left, and the
  error returned.
\<close>

fun Decode_awesome :: "body \<Rightarrow> awesomeAPIResponse \<Rightarrow> awesomeAPIResponse \<times> decode_error option" where
  "Decode_awesome NoValue a = (a, Some SyntaxError)"
| "Decode_awesome (Value v) a = store_awesome v a None"

section \<open>Building the outbound request: net/http and net/url\<close>

text \<open>
  \<open>http.NewRequestWithContext\<close> fails for an invalid method, for a nil context and
  for a URL that \<open>url.Parse\<close> rejects. The definitions below follow these checks of
  the library, reduced to whether they reject; bytes are compared by their codes.
\<close>

definition isAlpha :: "char \<Rightarrow> bool" where
  "isAlpha c = (let n = (of_char c :: nat) in (65 \<le> n \<and> n \<le> 90) \<or> (97 \<le> n \<and> n \<le> 122))"

definition isDigit :: "char \<Rightarrow> bool" where
  "isDigit c = (let n = (of_char c :: nat) in 48 \<le> n \<and> n \<le> 57)"

definition ishex :: "char \<Rightarrow> bool" where
  "ishex c = (let n = (of_char c :: nat) in
     (48 \<le> n \<and> n \<le> 57) \<or> (97 \<le> n \<and> n \<le> 102) \<or> (65 \<le> n \<and> n \<le> 70))"

definition unhex :: "char \<Rightarrow> nat" where
  "unhex c = (let n = (of_char c :: nat) in
     if 48 \<le> n \<and> n \<le> 57 then n - 48
     else if 97 \<le> n \<and> n \<le> 102 then n - 97 + 10
     else if 65 \<le> n \<and> n \<le> 70 then n - 65 + 10
     else 0)"

text \<open>The token characters of an HTTP method: letters, digits and \<open>!#$%&'*+-.^_`|~\<close>.\<close>

definition isTokenChar :: "char \<Rightarrow> bool" where
  "isTokenChar c =
     (isAlpha c \<or> isDigit c \<or>
      c \<in> set [CHR ''!'', CHR ''#'', CHR ''$'', CHR ''%'', CHR ''&'', CHR 0x27, CHR ''*'',
                 CHR ''+'', CHR ''-'', CHR ''.'', CHR ''^'', CHR ''_'', CHR 0x60, CHR ''|'',
                 CHR ''~''])"

definition validMethod :: "string \<Rightarrow> bool" where
  "validMethod method = (method \<noteq> [] \<and> list_all isTokenChar method)"

definition HasPrefix :: "string \<Rightarrow> string \<Rightarrow> bool" where
  "HasPrefix s p = (take (length p) s = p)"

definition stringContainsCTLByte :: "string \<Rightarrow> bool" where
  "stringContainsCTLByte s = list_ex (\<lambda>c. (of_char c :: nat) < 32 \<or> (of_char c :: nat) = 127) s"

text \<open>
  \<open>getScheme\<close>: \<open>None\<close> is the error "missing protocol scheme"; otherwise the scheme
  (empty when there is none) and the rest. \<open>pre\<close> is the part already scanned.
\<close>

fun getScheme_loop :: "string \<Rightarrow> string \<Rightarrow> string \<Rightarrow> (string \<times> string) option" where
  "getScheme_loop rawURL pre [] = Some ([], rawURL)"
| "getScheme_loop rawURL pre (c # cs) =
     (if isAlpha c then getScheme_loop rawURL (pre @ [c]) cs
      else if isDigit c \<or> c = CHR ''+'' \<or> c = CHR ''-'' \<or> c = CHR ''.'' then
        (if pre = [] then Some ([], rawURL) else getScheme_loop rawURL (pre @ [c]) cs)
      else if c = CHR '':'' then
        (if pre = [] then None else Some (pre, cs))
      else Some ([], rawURL))"

definition getScheme :: "string \<Rightarrow> (string \<times> string) option" where
  "getScheme rawURL = getScheme_loop rawURL [] rawURL"

datatype encoding = encodePath | encodeHost | encodeZone | encodeUserPassword | encodeFragment

text \<open>\<open>shouldEscape c encodeHost\<close> of net/url.\<close>

definition shouldEscapeHost :: "char \<Rightarrow> bool" where
  "shouldEscapeHost c =
     (\<not> (isAlpha c \<or> isDigit c \<or>
         c \<in> set [CHR ''!'', CHR ''$'', CHR ''&'', CHR 0x27, CHR ''('', CHR '')'', CHR ''*'',
                    CHR ''+'', CHR '','', CHR '';'', CHR ''='', CHR '':'', CHR ''['', CHR '']'',
                    CHR ''<'', CHR ''>'', CHR 0x22, CHR ''-'', CHR ''_'', CHR ''.'', CHR ''~'']))"

text \<open>
  \<open>unescape\<close> of net/url, reduced to whether it returns an error: every \<open>%\<close> is
  followed by two hex digits; in a host only bytes from 0x80 on (and \<open>%25\<close>) may be
  escaped and no ASCII byte that a host cannot hold may appear; in a zone an escape may
  only stand for a byte a host can hold, for a space or for \<open>%\<close>.
\<close>

fun unescape_ok :: "encoding \<Rightarrow> string \<Rightarrow> bool" where
  "unescape_ok mode [] = True"
| "unescape_ok mode (c # cs) =
     (if c = CHR ''%'' then
        (case cs of
           h1 # h2 # rest \<Rightarrow>
             if \<not> (ishex h1 \<and> ishex h2) then False
             else if mode = encodeHost \<and> unhex h1 < 8 \<and> [h1, h2] \<noteq> ''25'' then False
             else if mode = encodeZone \<and> [h1, h2] \<noteq> ''25'' \<and> unhex h1 * 16 + unhex h2 \<noteq> 32
                     \<and> shouldEscapeHost (char_of (unhex h1 * 16 + unhex h2)) then False
             else unescape_ok mode rest
         | _ \<Rightarrow> False)
      else if (mode = encodeHost \<or> mode = encodeZone) \<and> (of_char c :: nat) < 128
              \<and> shouldEscapeHost c then False
      else unescape_ok mode cs)"

definition validOptionalPort :: "string \<Rightarrow> bool" where
  "validOptionalPort port =
     (case port of [] \<Rightarrow> True | c # ds \<Rightarrow> c = CHR '':'' \<and> list_all isDigit ds)"

definition validUserinfo :: "string \<Rightarrow> bool" where
  "validUserinfo s =
     list_all (\<lambda>c. isAlpha c \<or> isDigit c \<or>
        c \<in> set [CHR ''-'', CHR ''.'', CHR ''_'', CHR '':'', CHR ''~'', CHR ''!'', CHR ''$'',
                   CHR ''&'', CHR 0x27, CHR ''('', CHR '')'', CHR ''*'', CHR ''+'', CHR '','',
                   CHR '';'', CHR ''='', CHR ''%'', CHR ''@'']) s"

text \<open>\<open>strings.LastIndex s c\<close> and \<open>strings.Index s sub\<close>, \<open>None\<close> for -1.\<close>

fun LastIndex :: "string \<Rightarrow> char \<Rightarrow> nat option" where
  "LastIndex [] c = None"
| "LastIndex (x # xs) c =
     (case LastIndex xs c of
        Some i \<Rightarrow> Some (Suc i)
      | None \<Rightarrow> if x = c then Some 0 else None)"

fun Index :: "string \<Rightarrow> string \<Rightarrow> nat option" where
  "Index [] sub = (if sub = [] then Some 0 else None)"
| "Index (x # xs) sub =
     (if HasPrefix (x # xs) sub then Some 0
      else (case Index xs sub of Some i \<Rightarrow> Some (Suc i) | None \<Rightarrow> None))"

definition parseHost_ok :: "string \<Rightarrow> bool" where
  "parseHost_ok host =
     (if HasPrefix host ''['' then
        (case LastIndex host CHR '']'' of
           None \<Rightarrow> False
         | Some i \<Rightarrow>
             if \<not> validOptionalPort (drop (Suc i) host) then False
             else (case Index (take i host) ''%25'' of
                     Some zone \<Rightarrow>
                       unescape_ok encodeHost (take zone host)
                       \<and> unescape_ok encodeZone (drop zone (take i host))
                       \<and> unescape_ok encodeHost (drop i host)
                   | None \<Rightarrow> unescape_ok encodeHost host))
      else
        (case LastIndex host CHR '':'' of
           Some i \<Rightarrow> validOptionalPort (drop i host) \<and> unescape_ok encodeHost host
         | None \<Rightarrow> unescape_ok encodeHost host))"

definition parseAuthority_ok :: "string \<Rightarrow> bool" where
  "parseAuthority_ok authority =
     (case LastIndex authority CHR ''@'' of
        None \<Rightarrow> parseHost_ok authority
      | Some i \<Rightarrow>
          parseHost_ok (drop (Suc i) authority)
          \<and> validUserinfo (take i authority)
          \<and> unescape_ok encodeUserPassword (takeWhile (\<lambda>c. c \<noteq> CHR '':'') (take i authority))
          \<and> unescape_ok encodeUserPassword
                (drop 1 (dropWhile (\<lambda>c. c \<noteq> CHR '':'') (take i authority))))"

text \<open>
  \<open>parse rawURL false\<close> of net/url, reduced to whether it returns a URL. The query is
  what follows the first \<open>?\<close>; it is split off and never rejected.
\<close>

definition parse_ok :: "string \<Rightarrow> bool" where
  "parse_ok rawURL =
     (if stringContainsCTLByte rawURL then False
      else if rawURL = ''*'' then True
      else
        (case getScheme rawURL of
           None \<Rightarrow> False
         | Some (scheme, rest0) \<Rightarrow>
             (let rest = takeWhile (\<lambda>c. c \<noteq> CHR ''?'') rest0 in
              if \<not> HasPrefix rest ''/'' \<and> scheme \<noteq> [] then True
              else if \<not> HasPrefix rest ''/''
                      \<and> CHR '':'' \<in> set (takeWhile (\<lambda>c. c \<noteq> CHR ''/'') rest) then False
              else if (scheme \<noteq> [] \<or> \<not> HasPrefix rest ''///'') \<and> HasPrefix rest ''//'' then
                parseAuthority_ok (takeWhile (\<lambda>c. c \<noteq> CHR ''/'') (drop 2 rest))
                \<and> unescape_ok encodePath (dropWhile (\<lambda>c. c \<noteq> CHR ''/'') (drop 2 rest))
              else unescape_ok encodePath rest)))"

text \<open>\<open>url.Parse\<close>: the fragment is cut off at the first \<open>#\<close> and unescaped on its own.\<close>

definition url_Parse_ok :: "string \<Rightarrow> bool" where
  "url_Parse_ok rawURL =
     (parse_ok (takeWhile (\<lambda>c. c \<noteq> CHR ''#'') rawURL)
      \<and> unescape_ok encodeFragment (drop 1 (dropWhile (\<lambda>c. c \<noteq> CHR ''#'') rawURL)))"

datatype request_error = InvalidMethod | NilContext | URLParseError

text \<open>
  \<open>http.NewRequestWithContext ctx method url nil\<close>; \<open>ctx_nil\<close> says whether the
  context passed is nil. \<open>None\<close> is success.
\<close>

definition NewRequestWithContext :: "bool \<Rightarrow> string \<Rightarrow> string \<Rightarrow> request_error option" where
  "NewRequestWithContext ctx_nil method url =
     (let m = (if method = [] then ''GET'' else method) in
      if \<not> validMethod m then Some InvalidMethod
      else if ctx_nil then Some NilContext
      else if \<not> url_Parse_ok url then Some URLParseError
      else None)"

section \<open>The quote server\<close>

definition externalAPIURL :: string where
  "externalAPIURL = ''https://economia.awesomeapi.com.br/json/last/USD-BRL''"

abbreviation StatusOK :: int where "StatusOK \<equiv> 200"
abbreviation StatusInternalServerError :: int where "StatusInternalServerError \<equiv> 500"
abbreviation StatusBadGateway :: int where "StatusBadGateway \<equiv> 502"
abbreviation StatusGatewayTimeout :: int where "StatusGatewayTimeout \<equiv> 504"

text \<open>
  What \<open>ctx.Err()\<close> returns once an operation bound to the context has failed:
  \<open>None\<close> for nil, else why the context is done.
\<close>

datatype ctx_error = Canceled | DeadlineExceeded

text \<open>
  The outcome of \<open>client.Do(req)\<close>: an error, together with the value \<open>ctx.Err()\<close> has
  when the caller reads it next, or a response with its status code and body.
\<close>

datatype do_result = Do_error "ctx_error option" | Do_response int body

text \<open>The outcome of \<open>db.ExecContext\<close> on the INSERT, likewise.\<close>

datatype exec_result = Exec_ok | Exec_error "ctx_error option"

text \<open>A row of the table \<open>quotes\<close>; the database assigns the \<open>id\<close>.\<close>

record quote =
  code :: string
  codein :: string
  bid :: string
  ts :: int

record quoteResponse =
  QBid :: string

text \<open>The JSON value that \<open>json.NewEncoder(w).Encode\<close> writes for a \<open>quoteResponse\<close>.\<close>

definition Encode_quoteResponse :: "quoteResponse \<Rightarrow> json" where
  "Encode_quoteResponse q = JObject [(''bid'', JString (QBid q))]"

datatype payload = Text string | Json json

record response =
  status :: int
  content_type :: string
  payload :: payload

text \<open>\<open>http.Error w msg code\<close>: a plain-text reply, the message followed by a newline.\<close>

definition http_Error :: "string \<Rightarrow> int \<Rightarrow> response" where
  "http_Error msg c =
     \<lparr>status = c, content_type = ''text/plain; charset=utf-8'', payload = Text (msg @ [CHR 0x0A])\<rparr>"

datatype log_line =
    Log_request_error
  | Log_api_timeout
  | Log_api_error
  | Log_api_status int
  | Log_decode_error
  | Log_no_bid
  | Log_db_timeout
  | Log_db_error

text \<open>
  What surrounds one request: the outcome of the outbound call, the outcome of the
  INSERT should it be executed, the clock, and whether what the handler writes to the
  \<open>ResponseWriter\<close> reaches the caller.
\<close>

record world =
  do_result :: do_result
  exec_result :: exec_result
  now :: int
  w_ok :: bool

text \<open>
  What one run of the handler leaves: the response written, whether it reached the
  caller, the table, the INSERT statements executed (with their arguments) and the
  log lines.
\<close>

record handled =
  written :: response
  delivered :: bool
  quotes :: "quote list"
  inserts :: "quote list"
  logged :: "log_line list"

definition ExecContext :: "exec_result \<Rightarrow> quote \<Rightarrow> quote list \<Rightarrow> quote list \<times> ctx_error option option" where
  "ExecContext r row tbl =
     (case r of Exec_ok \<Rightarrow> (tbl @ [row], None) | Exec_error c \<Rightarrow> (tbl, Some c))"

definition reply :: "world \<Rightarrow> quote list \<Rightarrow> log_line \<Rightarrow> response \<Rightarrow> handled" where
  "reply e tbl l r = \<lparr>written = r, delivered = w_ok e, quotes = tbl, inserts = [], logged = [l]\<rparr>"

definition msg_cotacao_erro :: string where
  "msg_cotacao_erro = ''erro ao obter cota'' @ [CHR 0xC3, CHR 0xA7, CHR 0xC3, CHR 0xA3] @ ''o''"

definition msg_cotacao_processar :: string where
  "msg_cotacao_processar = ''erro ao processar cota'' @ [CHR 0xC3, CHR 0xA7, CHR 0xC3, CHR 0xA3] @ ''o''"

definition msg_cotacao_indisponivel :: string where
  "msg_cotacao_indisponivel =
     ''cota'' @ [CHR 0xC3, CHR 0xA7, CHR 0xC3, CHR 0xA3] @ ''o indispon'' @ [CHR 0xC3, CHR 0xAD] @ ''vel''"

definition handleCotacao :: "world \<Rightarrow> quote list \<Rightarrow> handled" where
  "handleCotacao e tbl =
     (case NewRequestWithContext False ''GET'' externalAPIURL of
        Some err \<Rightarrow>
          reply e tbl Log_request_error (http_Error ''erro interno'' StatusInternalServerError)
      | None \<Rightarrow>
          (case do_result e of
             Do_error ctxErr \<Rightarrow>
               if ctxErr = Some DeadlineExceeded then
                 reply e tbl Log_api_timeout (http_Error ''timeout na API externa'' StatusGatewayTimeout)
               else
                 reply e tbl Log_api_error (http_Error msg_cotacao_erro StatusBadGateway)
           | Do_response sc b \<Rightarrow>
               if sc \<noteq> StatusOK then
                 reply e tbl (Log_api_status sc) (http_Error ''falha na API externa'' StatusBadGateway)
               else
                 (case Decode_awesome b zero_awesomeAPIResponse of
                    (apiResp, Some err) \<Rightarrow>
                      reply e tbl Log_decode_error (http_Error msg_cotacao_processar StatusBadGateway)
                  | (apiResp, None) \<Rightarrow>
                      if Bid (USDBRL apiResp) = [] then
                        reply e tbl Log_no_bid (http_Error msg_cotacao_indisponivel StatusBadGateway)
                      else
                        (let row = \<lparr>code = Code (USDBRL apiResp), codein = Codein (USDBRL apiResp),
                                    bid = Bid (USDBRL apiResp), ts = now e\<rparr>
                         in case ExecContext (exec_result e) row tbl of
                              (tbl', err) \<Rightarrow>
                                \<lparr>written =
                                   \<lparr>status = StatusOK,
                                    content_type = ''application/json; charset=utf-8'',
                                    payload = Json (Encode_quoteResponse \<lparr>QBid = Bid (USDBRL apiResp)\<rparr>)\<rparr>,
                                 delivered = w_ok e,
                                 quotes = tbl',
                                 inserts = [row],
                                 logged =
                                   (case err of
                                      None \<Rightarrow> []
                                    | Some ctxErr \<Rightarrow>
                                        if ctxErr = Some DeadlineExceeded then [Log_db_timeout]
                                        else [Log_db_error])\<rparr>))))"

section \<open>The quote client\<close>

definition serverURL :: string where
  "serverURL = ''http://localhost:8080/cotacao''"

definition outputFile :: string where
  "outputFile = ''cotacao.txt''"

definition zero_quoteResponse :: quoteResponse where
  "zero_quoteResponse = \<lparr>QBid = []\<rparr>"

definition store_quote_member ::
  "string \<times> json \<Rightarrow> quoteResponse \<times> decode_error option \<Rightarrow> quoteResponse \<times> decode_error option" where
  "store_quote_member m acc =
     (case acc of (q, saved) \<Rightarrow>
        (case matchField [''bid''] (fst m) of
           None \<Rightarrow> (q, saved)
         | Some f \<Rightarrow>
             (case storeString (snd m) (QBid q) saved of (s, saved') \<Rightarrow> (q\<lparr>QBid := s\<rparr>, saved'))))"

fun store_quote ::
  "json \<Rightarrow> quoteResponse \<Rightarrow> decode_error option \<Rightarrow> quoteResponse \<times> decode_error option" where
  "store_quote (JObject ms) q saved = foldl (\<lambda>acc m. store_quote_member m acc) (q, saved) ms"
| "store_quote JNull q saved = (q, saved)"
| "store_quote v q saved = (q, saveError UnmarshalTypeError saved)"

fun Decode_quote :: "body \<Rightarrow> quoteResponse \<Rightarrow> quoteResponse \<times> decode_error option" where
  "Decode_quote NoValue q = (q, Some SyntaxError)"
| "Decode_quote (Value v) q = store_quote v q None"

text \<open>
  The outcome of \<open>os.WriteFile\<close>, which opens the file for writing (creating or
  truncating it), writes and closes: success, a failure to open, or a failure after the
  file was truncated, with the number of bytes that were written.
\<close>

datatype write_result = Write_ok | Open_error | Write_error nat

definition WriteFile ::
  "write_result \<Rightarrow> string \<Rightarrow> string \<Rightarrow> (string \<rightharpoonup> string) \<Rightarrow> (string \<rightharpoonup> string) \<times> bool" where
  "WriteFile r name data fs =
     (case r of
        Write_ok \<Rightarrow> (fs(name \<mapsto> data), False)
      | Open_error \<Rightarrow> (fs, True)
      | Write_error n \<Rightarrow> (fs(name \<mapsto> take n data), True))"

datatype client_log =
    Fatal_request
  | Fatal_timeout
  | Fatal_call
  | Fatal_status int
  | Fatal_decode
  | Fatal_no_bid
  | Fatal_write
  | Saved string

record client_world =
  call_result :: do_result
  write_result :: write_result

text \<open>
  One run of the client: the exit code (\<open>log.Fatalf\<close> logs and exits with 1), the files
  and the log lines, with the calls to \<open>os.WriteFile\<close> made.
\<close>

record run =
  exit_code :: nat
  files :: "string \<rightharpoonup> string"
  writes :: "(string \<times> string) list"
  client_logged :: "client_log list"

definition Fatalf :: "(string \<rightharpoonup> string) \<Rightarrow> client_log \<Rightarrow> run" where
  "Fatalf fs l = \<lparr>exit_code = 1, files = fs, writes = [], client_logged = [l]\<rparr>"

definition Dolar :: string where
  "Dolar = ''D'' @ [CHR 0xC3, CHR 0xB3] @ ''lar: ''"

definition client_main :: "client_world \<Rightarrow> (string \<rightharpoonup> string) \<Rightarrow> run" where
  "client_main e fs =
     (case NewRequestWithContext False ''GET'' serverURL of
        Some err \<Rightarrow> Fatalf fs Fatal_request
      | None \<Rightarrow>
          (case call_result e of
             Do_error ctxErr \<Rightarrow>
               if ctxErr = Some DeadlineExceeded then Fatalf fs Fatal_timeout
               else Fatalf fs Fatal_call
           | Do_response sc b \<Rightarrow>
               if sc \<noteq> StatusOK then Fatalf fs (Fatal_status sc)
               else
                 (case Decode_quote b zero_quoteResponse of
                    (q, Some err) \<Rightarrow> Fatalf fs Fatal_decode
                  | (q, None) \<Rightarrow>
                      if QBid q = [] then Fatalf fs Fatal_no_bid
                      else
                        (let content = Dolar @ QBid q
                         in case WriteFile (write_result e) outputFile content fs of
                              (fs', failed) \<Rightarrow>
                                if failed then
                                  \<lparr>exit_code = 1, files = fs', writes = [(outputFile, content)],
                                   client_logged = [Fatal_write]\<rparr>
                                else
                                  \<lparr>exit_code = 0, files = fs', writes = [(outputFile, content)],
                                   client_logged = [Saved content]\<rparr>))))"

section \<open>Sample inputs\<close>

definition upstream_543 :: body where
  "upstream_543 = Value (JObject [(''USDBRL'',
     JObject [(''code'', JString ''USD''), (''codein'', JString ''BRL''), (''bid'', JString ''5.43'')])])"

definition upstream_no_bid :: body where
  "upstream_no_bid = Value (JObject [(''USDBRL'',
     JObject [(''code'', JString ''USD''), (''codein'', JString ''BRL'')])])"

definition upstream_empty_bid :: body where
  "upstream_empty_bid = Value (JObject [(''USDBRL'',
     JObject [(''code'', JString ''USD''), (''codein'', JString ''BRL''), (''bid'', JString [])])])"

definition upstream_bid_number :: body where
  "upstream_bid_number = Value (JObject [(''USDBRL'', JObject [(''bid'', JNumber ''5.43'')])])"


definition a_world :: "do_result \<Rightarrow> exec_result \<Rightarrow> world" where
  "a_world d x = \<lparr>do_result = d, exec_result = x, now = 1700000000, w_ok = True\<rparr>"

definition server_543 :: body where
  "server_543 = Value (JObject [(''bid'', JString ''5.43'')])"

definition a_client_world :: "do_result \<Rightarrow> write_result \<Rightarrow> client_world" where
  "a_client_world d w = \<lparr>call_result = d, write_result = w\<rparr>"

section \<open>The handler, branch by branch\<close>

lemma request_external_ok: "NewRequestWithContext False ''GET'' externalAPIURL = None"
  by code_simp

lemma request_server_ok: "NewRequestWithContext False ''GET'' serverURL = None"
  by code_simp

lemma handle_do_error:
  assumes "do_result e = Do_error c"
  shows "handleCotacao e tbl =
           (if c = Some DeadlineExceeded
            then reply e tbl Log_api_timeout (http_Error ''timeout na API externa'' StatusGatewayTimeout)
            else reply e tbl Log_api_error (http_Error msg_cotacao_erro StatusBadGateway))"
  using assms by (simp add: handleCotacao_def request_external_ok)

lemma handle_bad_status:
  assumes "do_result e = Do_response sc b" and "sc \<noteq> StatusOK"
  shows "handleCotacao e tbl =
           reply e tbl (Log_api_status sc) (http_Error ''falha na API externa'' StatusBadGateway)"
  using assms by (simp add: handleCotacao_def request_external_ok)

lemma handle_decode_error:
  assumes "do_result e = Do_response StatusOK b"
    and "Decode_awesome b zero_awesomeAPIResponse = (a, Some err)"
  shows "handleCotacao e tbl =
           reply e tbl Log_decode_error (http_Error msg_cotacao_processar StatusBadGateway)"
  using assms by (simp add: handleCotacao_def request_external_ok)

lemma handle_no_bid:
  assumes "do_result e = Do_response StatusOK b"
    and "Decode_awesome b zero_awesomeAPIResponse = (a, None)"
    and "Bid (USDBRL a) = []"
  shows "handleCotacao e tbl =
           reply e tbl Log_no_bid (http_Error msg_cotacao_indisponivel StatusBadGateway)"
  using assms by (simp add: handleCotacao_def request_external_ok)

lemma handle_fetched:
  assumes "do_result e = Do_response StatusOK b"
    and "Decode_awesome b zero_awesomeAPIResponse = (a, None)"
    and "Bid (USDBRL a) \<noteq> []"
  shows "handleCotacao e tbl =
           \<lparr>written = \<lparr>status = StatusOK, content_type = ''application/json; charset=utf-8'',
                       payload = Json (JObject [(''bid'', JString (Bid (USDBRL a)))])\<rparr>,
            delivered = w_ok e,
            quotes = (case exec_result e of Exec_ok \<Rightarrow>
                        tbl @ [\<lparr>code = Code (USDBRL a), codein = Codein (USDBRL a),
                                 bid = Bid (USDBRL a), ts = now e\<rparr>]
                      | Exec_error c \<Rightarrow> tbl),
            inserts = [\<lparr>code = Code (USDBRL a), codein = Codein (USDBRL a),
                        bid = Bid (USDBRL a), ts = now e\<rparr>],
            logged = (case exec_result e of Exec_ok \<Rightarrow> []
                      | Exec_error c \<Rightarrow> if c = Some DeadlineExceeded then [Log_db_timeout]
                                         else [Log_db_error])\<rparr>"
  using assms
  by (simp add: handleCotacao_def request_external_ok ExecContext_def Encode_quoteResponse_def
           Let_def split: exec_result.splits)

subsection \<open>Decoding the sample bodies\<close>

lemma decode_543:
  "Decode_awesome upstream_543 zero_awesomeAPIResponse
   = (\<lparr>USDBRL = \<lparr>Code = ''USD'', Codein = ''BRL'', Bid = ''5.43''\<rparr>\<rparr>, None)"
  by (simp add: upstream_543_def store_awesome_member_def store_usdbrl_member_def matchField_def
        zero_awesomeAPIResponse_def zero_usdbrl_def)

lemma decode_no_bid:
  "Decode_awesome upstream_no_bid zero_awesomeAPIResponse
   = (\<lparr>USDBRL = \<lparr>Code = ''USD'', Codein = ''BRL'', Bid = []\<rparr>\<rparr>, None)"
  by (simp add: upstream_no_bid_def store_awesome_member_def store_usdbrl_member_def matchField_def
        zero_awesomeAPIResponse_def zero_usdbrl_def)

lemma decode_empty_bid:
  "Decode_awesome upstream_empty_bid zero_awesomeAPIResponse
   = (\<lparr>USDBRL = \<lparr>Code = ''USD'', Codein = ''BRL'', Bid = []\<rparr>\<rparr>, None)"
  by (simp add: upstream_empty_bid_def store_awesome_member_def store_usdbrl_member_def matchField_def
        zero_awesomeAPIResponse_def zero_usdbrl_def)

lemma decode_bid_number:
  "Decode_awesome upstream_bid_number zero_awesomeAPIResponse
   = (zero_awesomeAPIResponse, Some UnmarshalTypeError)"
  by (simp add: upstream_bid_number_def store_awesome_member_def store_usdbrl_member_def matchField_def
        zero_awesomeAPIResponse_def zero_usdbrl_def saveError_def)

lemma inserts_carry_bid: "list_all (\<lambda>r. bid r \<noteq> []) (inserts (handleCotacao e tbl))"
  by (simp add: handleCotacao_def request_external_ok reply_def Let_def ExecContext_def
        split: do_result.splits prod.splits option.splits exec_result.splits)

subsection \<open>Members the decoder skips\<close>

lemma foldName_USDBRL: "foldName ''USDBRL'' = ''USDBRL''"
  by code_simp

lemma matchField_USDBRL_None:
  "matchField [''USDBRL''] k = None \<longleftrightarrow> foldName k \<noteq> ''USDBRL''"
proof (cases "k = ''USDBRL''")
  case True
  then show ?thesis
    by (simp add: matchField_def foldName_USDBRL del: foldName.simps)
next
  case False
  then have "matchField [''USDBRL''] k =
               (if foldName ''USDBRL'' = foldName k then Some ''USDBRL'' else None)"
    by (simp add: matchField_def del: foldName.simps)
  then show ?thesis
    by (auto simp add: foldName_USDBRL simp del: foldName.simps)
qed





section \<open>The client, branch by branch\<close>

lemma decode_server_543:
  "Decode_quote server_543 zero_quoteResponse = (\<lparr>QBid = ''5.43''\<rparr>, None)"
  by (simp add: server_543_def store_quote_member_def matchField_def zero_quoteResponse_def)

lemma client_do_error:
  assumes "call_result e = Do_error c"
  shows "client_main e fs =
           (if c = Some DeadlineExceeded then Fatalf fs Fatal_timeout else Fatalf fs Fatal_call)"
  using assms by (simp add: client_main_def request_server_ok)

lemma client_bad_status:
  assumes "call_result e = Do_response sc b" and "sc \<noteq> StatusOK"
  shows "client_main e fs = Fatalf fs (Fatal_status sc)"
  using assms by (simp add: client_main_def request_server_ok)

lemma client_decode_error:
  assumes "call_result e = Do_response StatusOK b"
    and "Decode_quote b zero_quoteResponse = (q, Some err)"
  shows "client_main e fs = Fatalf fs Fatal_decode"
  using assms by (simp add: client_main_def request_server_ok)

lemma client_no_bid:
  assumes "call_result e = Do_response StatusOK b"
    and "Decode_quote b zero_quoteResponse = (q, None)"
    and "QBid q = []"
  shows "client_main e fs = Fatalf fs Fatal_no_bid"
  using assms by (simp add: client_main_def request_server_ok)

lemma client_fetched:
  assumes "call_result e = Do_response StatusOK b"
    and "Decode_quote b zero_quoteResponse = (q, None)"
    and "QBid q \<noteq> []"
  shows "client_main e fs =
           (case write_result e of
              Write_ok \<Rightarrow>
                \<lparr>exit_code = 0, files = fs(outputFile \<mapsto> Dolar @ QBid q),
                 writes = [(outputFile, Dolar @ QBid q)], client_logged = [Saved (Dolar @ QBid q)]\<rparr>
            | Open_error \<Rightarrow>
                \<lparr>exit_code = 1, files = fs,
                 writes = [(outputFile, Dolar @ QBid q)], client_logged = [Fatal_write]\<rparr>
            | Write_error n \<Rightarrow>
                \<lparr>exit_code = 1, files = fs(outputFile \<mapsto> take n (Dolar @ QBid q)),
                 writes = [(outputFile, Dolar @ QBid q)], client_logged = [Fatal_write]\<rparr>)"
  using assms
  by (simp add: client_main_def request_server_ok WriteFile_def Let_def split: write_result.splits)

section \<open>The server's replies\<close>

text \<open>
  Claim C1. When the upstream call returns status 200 with a body that decodes and whose
  \<open>USDBRL.bid\<close> is the string \<open>5.43\<close>, the handler replies with status 200 and the JSON
  value \<open>{"bid":"5.43"}\<close>, the bid unchanged, and executes exactly one INSERT, whose
  row carries the decoded code, codein and bid.
\<close>
theorem valid_bid_answered_and_stored:
  assumes "do_result e = Do_response StatusOK b"
    and "Decode_awesome b zero_awesomeAPIResponse = (a, None)"
    and "Bid (USDBRL a) = ''5.43''"
  shows "status (written (handleCotacao e tbl)) = 200
       \<and> payload (written (handleCotacao e tbl)) = Json (JObject [(''bid'', JString ''5.43'')])
       \<and> inserts (handleCotacao e tbl) =
           [\<lparr>code = Code (USDBRL a), codein = Codein (USDBRL a), bid = ''5.43'', ts = now e\<rparr>]
       \<and> length (inserts (handleCotacao e tbl)) = 1"
proof -
  from assms(3) have "Bid (USDBRL a) \<noteq> []" by simp
  from handle_fetched [OF assms(1) assms(2) this, of tbl] assms(3)
  show ?thesis by simp
qed

theorem valid_bid_answered_and_stored_witness:
  "do_result (a_world (Do_response 200 upstream_543) Exec_ok) = Do_response StatusOK upstream_543
   \<and> Decode_awesome upstream_543 zero_awesomeAPIResponse
       = (\<lparr>USDBRL = \<lparr>Code = ''USD'', Codein = ''BRL'', Bid = ''5.43''\<rparr>\<rparr>, None)
   \<and> status (written (handleCotacao (a_world (Do_response 200 upstream_543) Exec_ok) [])) = 200
   \<and> payload (written (handleCotacao (a_world (Do_response 200 upstream_543) Exec_ok) []))
       = Json (JObject [(''bid'', JString ''5.43'')])
   \<and> inserts (handleCotacao (a_world (Do_response 200 upstream_543) Exec_ok) [])
       = [\<lparr>code = ''USD'', codein = ''BRL'', bid = ''5.43'', ts = 1700000000\<rparr>]"
  using valid_bid_answered_and_stored
    [of "a_world (Do_response 200 upstream_543) Exec_ok" upstream_543
        "\<lparr>USDBRL = \<lparr>Code = ''USD'', Codein = ''BRL'', Bid = ''5.43''\<rparr>\<rparr>" "[]"]
    decode_543
  by (simp add: a_world_def)

text \<open>
  Claim C2. When the outbound call fails and the context of the call reports that its
  deadline was exceeded, the handler replies with status 504, executes no INSERT and
  leaves the table as it was.
\<close>
theorem upstream_timeout_504:
  assumes "do_result e = Do_error (Some DeadlineExceeded)"
  shows "status (written (handleCotacao e tbl)) = 504
       \<and> quotes (handleCotacao e tbl) = tbl
       \<and> inserts (handleCotacao e tbl) = []"
  using handle_do_error [OF assms, of tbl] by (simp add: reply_def http_Error_def)

theorem upstream_timeout_504_witness:
  "do_result (a_world (Do_error (Some DeadlineExceeded)) Exec_ok) = Do_error (Some DeadlineExceeded)
   \<and> status (written (handleCotacao (a_world (Do_error (Some DeadlineExceeded)) Exec_ok) [])) = 504
   \<and> quotes (handleCotacao (a_world (Do_error (Some DeadlineExceeded)) Exec_ok) []) = []
   \<and> inserts (handleCotacao (a_world (Do_error (Some DeadlineExceeded)) Exec_ok) []) = []"
  using upstream_timeout_504 [of "a_world (Do_error (Some DeadlineExceeded)) Exec_ok" "[]"]
  by (simp add: a_world_def)

text \<open>
  Claim C3. The handler replies with status 502, executes no INSERT and leaves the table
  as it was in each of these cases: the outbound call fails and the context does not
  report an exceeded deadline; the upstream status is not 200; the upstream status is
  200 and decoding the body returns an error.
\<close>
theorem upstream_failure_502:
  assumes "(do_result e = Do_error c \<and> c \<noteq> Some DeadlineExceeded)
         \<or> (do_result e = Do_response sc b \<and> sc \<noteq> 200)
         \<or> (do_result e = Do_response 200 b
              \<and> Decode_awesome b zero_awesomeAPIResponse = (a, Some err))"
  shows "status (written (handleCotacao e tbl)) = 502
       \<and> quotes (handleCotacao e tbl) = tbl
       \<and> inserts (handleCotacao e tbl) = []"
  using assms
proof (elim disjE conjE)
  assume "do_result e = Do_error c" and "c \<noteq> Some DeadlineExceeded"
  then show ?thesis
    using handle_do_error [of e c tbl] by (simp add: reply_def http_Error_def)
next
  assume "do_result e = Do_response sc b" and "sc \<noteq> 200"
  then show ?thesis
    using handle_bad_status [of e sc b tbl] by (simp add: reply_def http_Error_def)
next
  assume "do_result e = Do_response 200 b"
    and "Decode_awesome b zero_awesomeAPIResponse = (a, Some err)"
  then show ?thesis
    using handle_decode_error [of e b a err tbl] by (simp add: reply_def http_Error_def)
qed

theorem upstream_failure_502_witness:
  "status (written (handleCotacao (a_world (Do_error None) Exec_ok) [])) = 502
   \<and> status (written (handleCotacao (a_world (Do_error (Some Canceled)) Exec_ok) [])) = 502
   \<and> status (written (handleCotacao (a_world (Do_response 500 upstream_543) Exec_ok) [])) = 502
   \<and> status (written (handleCotacao (a_world (Do_response 200 NoValue) Exec_ok) [])) = 502
   \<and> status (written (handleCotacao (a_world (Do_response 200 upstream_bid_number) Exec_ok) [])) = 502
   \<and> quotes (handleCotacao (a_world (Do_error None) Exec_ok) []) = []
   \<and> quotes (handleCotacao (a_world (Do_response 500 upstream_543) Exec_ok) []) = []
   \<and> quotes (handleCotacao (a_world (Do_response 200 NoValue) Exec_ok) []) = []
   \<and> quotes (handleCotacao (a_world (Do_response 200 upstream_bid_number) Exec_ok) []) = []"
  using upstream_failure_502 [of "a_world (Do_error None) Exec_ok" None 0 NoValue
          zero_awesomeAPIResponse SyntaxError "[]"]
    upstream_failure_502 [of "a_world (Do_error (Some Canceled)) Exec_ok" "Some Canceled" 0 NoValue
          zero_awesomeAPIResponse SyntaxError "[]"]
    upstream_failure_502 [of "a_world (Do_response 500 upstream_543) Exec_ok" None 500 upstream_543
          zero_awesomeAPIResponse SyntaxError "[]"]
    upstream_failure_502 [of "a_world (Do_response 200 NoValue) Exec_ok" None 200 NoValue
          zero_awesomeAPIResponse SyntaxError "[]"]
    upstream_failure_502 [of "a_world (Do_response 200 upstream_bid_number) Exec_ok" None 200
          upstream_bid_number zero_awesomeAPIResponse UnmarshalTypeError "[]"]
    decode_bid_number
  by (simp add: a_world_def)

text \<open>
  Claim C4. When the upstream status is 200 and the body decodes without error but the
  decoded bid is empty (the member is absent, \<open>null\<close> or the empty string), the handler
  replies with status 502, executes no INSERT and leaves the table as it was. In every
  run, whatever the outcome of the outbound call, each INSERT that is executed carries a
  non-empty bid: the INSERT comes after the check of the bid.
\<close>
theorem empty_bid_502_no_insert:
  assumes "do_result e = Do_response 200 b"
    and "Decode_awesome b zero_awesomeAPIResponse = (a, None)"
    and "Bid (USDBRL a) = []"
  shows "status (written (handleCotacao e tbl)) = 502
       \<and> quotes (handleCotacao e tbl) = tbl
       \<and> inserts (handleCotacao e tbl) = []
       \<and> list_all (\<lambda>r. bid r \<noteq> []) (inserts (handleCotacao e' tbl'))"
  using handle_no_bid [OF assms, of tbl] inserts_carry_bid [of e' tbl']
  by (simp add: reply_def http_Error_def)

theorem empty_bid_502_no_insert_witness:
  "do_result (a_world (Do_response 200 upstream_no_bid) Exec_ok) = Do_response 200 upstream_no_bid
   \<and> Decode_awesome upstream_no_bid zero_awesomeAPIResponse
       = (\<lparr>USDBRL = \<lparr>Code = ''USD'', Codein = ''BRL'', Bid = []\<rparr>\<rparr>, None)
   \<and> Decode_awesome upstream_empty_bid zero_awesomeAPIResponse
       = (\<lparr>USDBRL = \<lparr>Code = ''USD'', Codein = ''BRL'', Bid = []\<rparr>\<rparr>, None)
   \<and> status (written (handleCotacao (a_world (Do_response 200 upstream_no_bid) Exec_ok) [])) = 502
   \<and> quotes (handleCotacao (a_world (Do_response 200 upstream_no_bid) Exec_ok) []) = []
   \<and> inserts (handleCotacao (a_world (Do_response 200 upstream_no_bid) Exec_ok) []) = []
   \<and> status (written (handleCotacao (a_world (Do_response 200 upstream_empty_bid) Exec_ok) [])) = 502
   \<and> inserts (handleCotacao (a_world (Do_response 200 upstream_empty_bid) Exec_ok) []) = []
   \<and> list_all (\<lambda>r. bid r \<noteq> [])
        [\<lparr>code = ''USD'', codein = ''BRL'', bid = ''5.43'', ts = 1700000000\<rparr>]
   \<and> inserts (handleCotacao (a_world (Do_response 200 upstream_543) Exec_ok) [])
       = [\<lparr>code = ''USD'', codein = ''BRL'', bid = ''5.43'', ts = 1700000000\<rparr>]"
  using empty_bid_502_no_insert
    [of "a_world (Do_response 200 upstream_no_bid) Exec_ok" upstream_no_bid
        "\<lparr>USDBRL = \<lparr>Code = ''USD'', Codein = ''BRL'', Bid = []\<rparr>\<rparr>" "[]"
        "a_world (Do_response 200 upstream_543) Exec_ok" "[]"]
    empty_bid_502_no_insert
    [of "a_world (Do_response 200 upstream_empty_bid) Exec_ok" upstream_empty_bid
        "\<lparr>USDBRL = \<lparr>Code = ''USD'', Codein = ''BRL'', Bid = []\<rparr>\<rparr>" "[]"
        "a_world (Do_response 200 upstream_543) Exec_ok" "[]"]
    decode_no_bid decode_empty_bid
    handle_fetched [of "a_world (Do_response 200 upstream_543) Exec_ok" upstream_543
        "\<lparr>USDBRL = \<lparr>Code = ''USD'', Codein = ''BRL'', Bid = ''5.43''\<rparr>\<rparr>" "[]"]
    decode_543
  by (simp add: a_world_def)

text \<open>
  Claim C5. When the upstream fetch succeeds with a non-empty bid and the INSERT fails,
  for whatever reason and in particular because its own deadline was exceeded, the
  handler still writes the 200 reply with the fetched bid: the same reply as when the
  INSERT succeeds.
\<close>
theorem storage_error_keeps_200:
  assumes "do_result e = Do_response 200 b"
    and "Decode_awesome b zero_awesomeAPIResponse = (a, None)"
    and "Bid (USDBRL a) \<noteq> []"
  shows "written (handleCotacao (e\<lparr>exec_result := Exec_error c\<rparr>) tbl)
           = \<lparr>status = 200, content_type = ''application/json; charset=utf-8'',
              payload = Json (JObject [(''bid'', JString (Bid (USDBRL a)))])\<rparr>
       \<and> written (handleCotacao (e\<lparr>exec_result := Exec_error c\<rparr>) tbl)
           = written (handleCotacao (e\<lparr>exec_result := Exec_ok\<rparr>) tbl)"
proof -
  have "do_result (e\<lparr>exec_result := x\<rparr>) = Do_response 200 b" for x
    using assms(1) by simp
  from handle_fetched [OF this assms(2) assms(3)] show ?thesis by simp
qed

theorem storage_error_keeps_200_witness:
  "do_result (a_world (Do_response 200 upstream_543) Exec_ok) = Do_response 200 upstream_543
   \<and> Decode_awesome upstream_543 zero_awesomeAPIResponse
       = (\<lparr>USDBRL = \<lparr>Code = ''USD'', Codein = ''BRL'', Bid = ''5.43''\<rparr>\<rparr>, None)
   \<and> written (handleCotacao (a_world (Do_response 200 upstream_543) (Exec_error (Some DeadlineExceeded))) [])
       = \<lparr>status = 200, content_type = ''application/json; charset=utf-8'',
          payload = Json (JObject [(''bid'', JString ''5.43'')])\<rparr>
   \<and> quotes (handleCotacao (a_world (Do_response 200 upstream_543) (Exec_error (Some DeadlineExceeded))) [])
       = []"
  using storage_error_keeps_200
    [of "a_world (Do_response 200 upstream_543) Exec_ok" upstream_543
        "\<lparr>USDBRL = \<lparr>Code = ''USD'', Codein = ''BRL'', Bid = ''5.43''\<rparr>\<rparr>"
        "Some DeadlineExceeded" "[]"]
    decode_543
    handle_fetched [of "a_world (Do_response 200 upstream_543) (Exec_error (Some DeadlineExceeded))"
        upstream_543 "\<lparr>USDBRL = \<lparr>Code = ''USD'', Codein = ''BRL'', Bid = ''5.43''\<rparr>\<rparr>" "[]"]
  by (simp add: a_world_def)

text \<open>
  Claim C6 as it is stated, exactly one row appended for every successful fetch, fails
  when the INSERT fails: the upstream bid is \<open>5.43\<close>, the INSERT exceeds its deadline,
  the reply is 200 and the table, empty before, is still empty.
\<close>
theorem one_row_per_fetch_counterexample:
  "do_result (a_world (Do_response 200 upstream_543) (Exec_error (Some DeadlineExceeded)))
     = Do_response 200 upstream_543
   \<and> Decode_awesome upstream_543 zero_awesomeAPIResponse
       = (\<lparr>USDBRL = \<lparr>Code = ''USD'', Codein = ''BRL'', Bid = ''5.43''\<rparr>\<rparr>, None)
   \<and> status (written (handleCotacao
        (a_world (Do_response 200 upstream_543) (Exec_error (Some DeadlineExceeded))) [])) = 200
   \<and> quotes (handleCotacao
        (a_world (Do_response 200 upstream_543) (Exec_error (Some DeadlineExceeded))) []) = []
   \<and> length (quotes (handleCotacao
        (a_world (Do_response 200 upstream_543) (Exec_error (Some DeadlineExceeded))) []))
       \<noteq> length ([] :: quote list) + 1"
  using handle_fetched [of "a_world (Do_response 200 upstream_543) (Exec_error (Some DeadlineExceeded))"
        upstream_543 "\<lparr>USDBRL = \<lparr>Code = ''USD'', Codein = ''BRL'', Bid = ''5.43''\<rparr>\<rparr>" "[]"]
    decode_543
  by (simp add: a_world_def)

text \<open>
  Claim C6, amended. For every request whose upstream fetch succeeds with a non-empty
  bid, exactly one INSERT is executed; that row is appended to the table when the INSERT
  succeeds and the table is left as it was when it fails. Neither the INSERT nor the
  table depends on whether the reply reaches the caller.
\<close>
theorem one_insert_per_fetch:
  assumes "do_result e = Do_response 200 b"
    and "Decode_awesome b zero_awesomeAPIResponse = (a, None)"
    and "Bid (USDBRL a) \<noteq> []"
  shows "length (inserts (handleCotacao e tbl)) = 1
       \<and> quotes (handleCotacao e tbl)
           = (if exec_result e = Exec_ok then tbl @ inserts (handleCotacao e tbl) else tbl)
       \<and> inserts (handleCotacao (e\<lparr>w_ok := d\<rparr>) tbl) = inserts (handleCotacao e tbl)
       \<and> quotes (handleCotacao (e\<lparr>w_ok := d\<rparr>) tbl) = quotes (handleCotacao e tbl)"
proof -
  have "do_result (e\<lparr>w_ok := d\<rparr>) = Do_response 200 b"
    using assms(1) by simp
  from handle_fetched [OF this assms(2) assms(3), of tbl]
    handle_fetched [OF assms, of tbl]
  show ?thesis by (simp split: exec_result.splits)
qed

theorem one_insert_per_fetch_witness:
  "do_result (a_world (Do_response 200 upstream_543) Exec_ok) = Do_response 200 upstream_543
   \<and> Decode_awesome upstream_543 zero_awesomeAPIResponse
       = (\<lparr>USDBRL = \<lparr>Code = ''USD'', Codein = ''BRL'', Bid = ''5.43''\<rparr>\<rparr>, None)
   \<and> length (inserts (handleCotacao (a_world (Do_response 200 upstream_543) Exec_ok) [])) = 1
   \<and> quotes (handleCotacao (a_world (Do_response 200 upstream_543) Exec_ok) [])
       = [\<lparr>code = ''USD'', codein = ''BRL'', bid = ''5.43'', ts = 1700000000\<rparr>]
   \<and> quotes (handleCotacao ((a_world (Do_response 200 upstream_543) Exec_ok)\<lparr>w_ok := False\<rparr>) [])
       = [\<lparr>code = ''USD'', codein = ''BRL'', bid = ''5.43'', ts = 1700000000\<rparr>]"
  using one_insert_per_fetch
    [of "a_world (Do_response 200 upstream_543) Exec_ok" upstream_543
        "\<lparr>USDBRL = \<lparr>Code = ''USD'', Codein = ''BRL'', Bid = ''5.43''\<rparr>\<rparr>" "[]" False]
    decode_543
    handle_fetched [of "a_world (Do_response 200 upstream_543) Exec_ok"
        upstream_543 "\<lparr>USDBRL = \<lparr>Code = ''USD'', Codein = ''BRL'', Bid = ''5.43''\<rparr>\<rparr>" "[]"]
  by (simp add: a_world_def)

text \<open>
  Claim C7. The status of the handler's reply is 200, 502 or 504 in every run. The one
  other branch of the handler, the 500 reply for a request that cannot be built, is never
  taken: the method and the URL are constants that the library accepts.
\<close>
theorem status_200_502_504:
  "status (written (handleCotacao e tbl)) \<in> {200, 502, 504}
   \<and> status (written (handleCotacao e tbl)) \<noteq> 500
   \<and> Log_request_error \<notin> set (logged (handleCotacao e tbl))"
  by (simp add: handleCotacao_def request_external_ok reply_def http_Error_def Let_def
        ExecContext_def
        split: do_result.splits prod.splits option.splits exec_result.splits)

theorem status_200_502_504_witness:
  "status (written (handleCotacao (a_world (Do_response 200 upstream_543) Exec_ok) [])) = 200
   \<and> status (written (handleCotacao (a_world (Do_response 200 upstream_543) Exec_ok) []))
        \<in> {200, 502, 504}
   \<and> status (written (handleCotacao (a_world (Do_error None) Exec_ok) [])) = 502
   \<and> status (written (handleCotacao (a_world (Do_error None) Exec_ok) [])) \<in> {200, 502, 504}
   \<and> status (written (handleCotacao (a_world (Do_error (Some DeadlineExceeded)) Exec_ok) [])) = 504
   \<and> status (written (handleCotacao (a_world (Do_error (Some DeadlineExceeded)) Exec_ok) []))
        \<in> {200, 502, 504}"
  using status_200_502_504 [of "a_world (Do_response 200 upstream_543) Exec_ok" "[]"]
    status_200_502_504 [of "a_world (Do_error None) Exec_ok" "[]"]
    status_200_502_504 [of "a_world (Do_error (Some DeadlineExceeded)) Exec_ok" "[]"]
    handle_fetched [of "a_world (Do_response 200 upstream_543) Exec_ok"
        upstream_543 "\<lparr>USDBRL = \<lparr>Code = ''USD'', Codein = ''BRL'', Bid = ''5.43''\<rparr>\<rparr>" "[]"]
    handle_do_error [of "a_world (Do_error None) Exec_ok" None "[]"]
    handle_do_error [of "a_world (Do_error (Some DeadlineExceeded)) Exec_ok" "Some DeadlineExceeded" "[]"]
    decode_543
  by (simp add: a_world_def reply_def http_Error_def)




section \<open>The client's runs\<close>

text \<open>
  Claim C8 as it is stated, the file holds the line in every run in which the server
  replies 200 with \<open>{"bid":"5.43"}\<close>, fails when the file cannot be written: the file
  cannot be opened, it keeps its prior contents and the client exits with 1.
\<close>
theorem client_file_counterexample:
  "call_result (a_client_world (Do_response 200 server_543) Open_error) = Do_response 200 server_543
   \<and> files (client_main (a_client_world (Do_response 200 server_543) Open_error)
              [''cotacao.txt'' \<mapsto> ''old'']) ''cotacao.txt'' = Some ''old''
   \<and> exit_code (client_main (a_client_world (Do_response 200 server_543) Open_error)
              [''cotacao.txt'' \<mapsto> ''old'']) = 1"
  using client_fetched [of "a_client_world (Do_response 200 server_543) Open_error" server_543
          "\<lparr>QBid = ''5.43''\<rparr>" "[''cotacao.txt'' \<mapsto> ''old'']"]
    decode_server_543
  by (simp add: a_client_world_def)

text \<open>
  Claim C8, amended. In every run in which the server replies 200 with \<open>{"bid":"5.43"}\<close>
  the client calls \<open>os.WriteFile\<close> once, on \<open>cotacao.txt\<close>, with exactly the bytes of
  \<open>D\<close>, o acute (C3 B3), \<open>lar: 5.43\<close>. When that write succeeds the file holds exactly
  these bytes, whatever it held before, and the client exits with 0; when it fails the
  client exits with 1.
\<close>
theorem client_writes_dolar:
  assumes "call_result e = Do_response 200 (Value (JObject [(''bid'', JString ''5.43'')]))"
  shows "writes (client_main e fs)
           = [(''cotacao.txt'', ''D'' @ [CHR 0xC3, CHR 0xB3] @ ''lar: 5.43'')]
       \<and> (if write_result e = Write_ok
          then files (client_main e fs)
                 = fs(''cotacao.txt'' \<mapsto> ''D'' @ [CHR 0xC3, CHR 0xB3] @ ''lar: 5.43'')
               \<and> exit_code (client_main e fs) = 0
          else exit_code (client_main e fs) = 1)"
  using client_fetched [of e server_543 "\<lparr>QBid = ''5.43''\<rparr>" fs] decode_server_543 assms
  by (simp add: server_543_def outputFile_def Dolar_def split: write_result.splits)

theorem client_writes_dolar_witness:
  "call_result (a_client_world (Do_response 200 server_543) Write_ok)
     = Do_response 200 (Value (JObject [(''bid'', JString ''5.43'')]))
   \<and> files (client_main (a_client_world (Do_response 200 server_543) Write_ok)
              [''cotacao.txt'' \<mapsto> ''old'']) ''cotacao.txt''
       = Some (''D'' @ [CHR 0xC3, CHR 0xB3] @ ''lar: 5.43'')
   \<and> exit_code (client_main (a_client_world (Do_response 200 server_543) Write_ok)
              [''cotacao.txt'' \<mapsto> ''old'']) = 0"
  using client_writes_dolar [of "a_client_world (Do_response 200 server_543) Write_ok"
          "[''cotacao.txt'' \<mapsto> ''old'']"]
  by (simp add: a_client_world_def server_543_def)

text \<open>
  Claim C9. When calling the server fails (the call returns an error, by an exceeded
  deadline or otherwise, or the status is not 200, or decoding the body returns an error,
  or the decoded bid is empty), the client logs one fatal line, exits with 1, makes no
  call to \<open>os.WriteFile\<close> and leaves the files as they were.
\<close>
theorem client_failure_fatal:
  assumes "call_result e = Do_error c
         \<or> (call_result e = Do_response sc b \<and> sc \<noteq> 200)
         \<or> (call_result e = Do_response 200 b
              \<and> Decode_quote b zero_quoteResponse = (q, Some err))
         \<or> (call_result e = Do_response 200 b
              \<and> Decode_quote b zero_quoteResponse = (q, None) \<and> QBid q = [])"
  shows "exit_code (client_main e fs) = 1
       \<and> files (client_main e fs) = fs
       \<and> writes (client_main e fs) = []
       \<and> client_logged (client_main e fs)
           \<in> {[Fatal_timeout], [Fatal_call], [Fatal_status sc], [Fatal_decode], [Fatal_no_bid]}"
  using assms
proof (elim disjE conjE)
  assume "call_result e = Do_error c"
  then show ?thesis
    using client_do_error [of e c fs] by (simp add: Fatalf_def)
next
  assume "call_result e = Do_response sc b" and "sc \<noteq> 200"
  then show ?thesis
    using client_bad_status [of e sc b fs] by (simp add: Fatalf_def)
next
  assume "call_result e = Do_response 200 b"
    and "Decode_quote b zero_quoteResponse = (q, Some err)"
  then show ?thesis
    using client_decode_error [of e b q err fs] by (simp add: Fatalf_def)
next
  assume "call_result e = Do_response 200 b"
    and "Decode_quote b zero_quoteResponse = (q, None)" and "QBid q = []"
  then show ?thesis
    using client_no_bid [of e b q fs] by (simp add: Fatalf_def)
qed


theorem client_failure_fatal_witness:
  "exit_code (client_main (a_client_world (Do_error (Some DeadlineExceeded)) Write_ok)
      [''cotacao.txt'' \<mapsto> ''old'']) = 1
   \<and> exit_code (client_main (a_client_world (Do_error None) Write_ok) [''cotacao.txt'' \<mapsto> ''old'']) = 1
   \<and> exit_code (client_main (a_client_world (Do_response 502 NoValue) Write_ok)
        [''cotacao.txt'' \<mapsto> ''old'']) = 1
   \<and> exit_code (client_main (a_client_world (Do_response 200 NoValue) Write_ok)
        [''cotacao.txt'' \<mapsto> ''old'']) = 1
   \<and> exit_code (client_main (a_client_world (Do_response 200 (Value (JObject []))) Write_ok)
        [''cotacao.txt'' \<mapsto> ''old'']) = 1
   \<and> files (client_main (a_client_world (Do_error (Some DeadlineExceeded)) Write_ok)
        [''cotacao.txt'' \<mapsto> ''old'']) = [''cotacao.txt'' \<mapsto> ''old'']
   \<and> files (client_main (a_client_world (Do_response 200 (Value (JObject []))) Write_ok)
        [''cotacao.txt'' \<mapsto> ''old'']) = [''cotacao.txt'' \<mapsto> ''old'']"
  using client_failure_fatal [of "a_client_world (Do_error (Some DeadlineExceeded)) Write_ok"
          "Some DeadlineExceeded" 0 NoValue zero_quoteResponse SyntaxError
          "[''cotacao.txt'' \<mapsto> ''old'']"]
    client_failure_fatal [of "a_client_world (Do_error None) Write_ok"
          None 0 NoValue zero_quoteResponse SyntaxError "[''cotacao.txt'' \<mapsto> ''old'']"]
    client_failure_fatal [of "a_client_world (Do_response 502 NoValue) Write_ok"
          None 502 NoValue zero_quoteResponse SyntaxError "[''cotacao.txt'' \<mapsto> ''old'']"]
    client_failure_fatal [of "a_client_world (Do_response 200 NoValue) Write_ok"
          None 200 NoValue zero_quoteResponse SyntaxError "[''cotacao.txt'' \<mapsto> ''old'']"]
    client_failure_fatal [of "a_client_world (Do_response 200 (Value (JObject []))) Write_ok"
          None 200 "Value (JObject [])" zero_quoteResponse SyntaxError
          "[''cotacao.txt'' \<mapsto> ''old'']"]
  by (simp add: a_client_world_def zero_quoteResponse_def)


end
